theory Spec2Isabelle
  imports Complex_Main "HOL-Library.Multiset"
begin

section \<open>Python values\<close>

text \<open>
  The answer extractor (\<^verbatim>\<open>eval/common/question_logic.py\<close>) and the scorer
  (\<^verbatim>\<open>eval/evaluate.py\<close>) work on Python strings and on values read from JSON lines.

  A Python \<^verbatim>\<open>str\<close> is modelled as a \<^typ>\<open>string\<close>, each \<^typ>\<open>char\<close> standing for the code
  point of the same number: the model covers the strings whose code points are below 256.
  The character classes below (\<^verbatim>\<open>str.isspace\<close>, \<^verbatim>\<open>\d\<close>, \<^verbatim>\<open>\w\<close>, \<^verbatim>\<open>str.lower\<close>) are
  Python 3's on that range.

  An exception is a value of \<open>py_error\<close>; a function of the source that can raise returns
  \<open>py_error + 'a\<close>.
\<close>

datatype py_error = ValueError | SyntaxError | OverflowError | KeyError | TypeError | OtherError

text \<open>
  A float is \<open>Float m e\<close>, the number \<open>m * 2 ^ e\<close>, or one of the three special values.
  Scores (\<^verbatim>\<open>0.0\<close>, \<^verbatim>\<open>0.5\<close>, \<^verbatim>\<open>1.0\<close>, their sums and means) are rationals.
\<close>

datatype pyfloat = Float int int | PosInf | NegInf | NaN

datatype json =
    JNull
  | JBool bool
  | JInt int
  | JFloat pyfloat
  | JStr string
  | JList "json list"
  | JDict "(string \<times> json) list"

type_synonym pydict = "string \<rightharpoonup> json"

text \<open>\<^verbatim>\<open>d.get(k)\<close>: a missing key and a JSON \<^verbatim>\<open>null\<close> both read as \<^verbatim>\<open>None\<close>.\<close>

definition get :: "pydict \<Rightarrow> string \<Rightarrow> json" where
  "get d k = (case d k of None \<Rightarrow> JNull | Some v \<Rightarrow> v)"

text \<open>Truth value testing, as in \<^verbatim>\<open>if not x\<close> and \<^verbatim>\<open>x or y\<close>.\<close>

fun truthy :: "json \<Rightarrow> bool" where
  "truthy JNull = False"
| "truthy (JBool b) = b"
| "truthy (JInt i) = (i \<noteq> 0)"
| "truthy (JFloat (Float m e)) = (m \<noteq> 0)"
| "truthy (JFloat f) = True"
| "truthy (JStr s) = (s \<noteq> [])"
| "truthy (JList xs) = (xs \<noteq> [])"
| "truthy (JDict kvs) = (kvs \<noteq> [])"

section \<open>Characters and strings\<close>

definition code :: "char \<Rightarrow> nat" where
  "code c = of_char c"

text \<open>\<^verbatim>\<open>str.isspace\<close>, which \<^verbatim>\<open>str.strip()\<close>, \<^verbatim>\<open>str.split()\<close> and the pattern \<^verbatim>\<open>\s\<close> use.\<close>

definition isspace :: "char \<Rightarrow> bool" where
  "isspace c = (code c \<in> {9, 10, 11, 12, 13, 28, 29, 30, 31, 32, 133, 160})"

text \<open>The pattern \<^verbatim>\<open>\d\<close>: the decimal digits.\<close>

definition isdigit :: "char \<Rightarrow> bool" where
  "isdigit c = (c \<in> set ''0123456789'')"

text \<open>The pattern \<^verbatim>\<open>\w\<close>, which decides \<^verbatim>\<open>\b\<close>: alphanumeric characters and the underscore.\<close>

definition isword :: "char \<Rightarrow> bool" where
  "isword c = (let n = code c in
     (48 \<le> n \<and> n \<le> 57) \<or> (65 \<le> n \<and> n \<le> 90) \<or> n = 95 \<or> (97 \<le> n \<and> n \<le> 122) \<or>
     n = 170 \<or> n = 178 \<or> n = 179 \<or> n = 181 \<or> n = 185 \<or> n = 186 \<or>
     (188 \<le> n \<and> n \<le> 190) \<or> (192 \<le> n \<and> n \<le> 214) \<or> (216 \<le> n \<and> n \<le> 246) \<or>
     (248 \<le> n \<and> n \<le> 255))"

definition upper_chars :: string where
  "upper_chars = ''ABCDEFGHIJKLMNOPQRSTUVWXYZ'' @
     [CHR 0xC0, CHR 0xC1, CHR 0xC2, CHR 0xC3, CHR 0xC4, CHR 0xC5, CHR 0xC6, CHR 0xC7,
      CHR 0xC8, CHR 0xC9, CHR 0xCA, CHR 0xCB, CHR 0xCC, CHR 0xCD, CHR 0xCE, CHR 0xCF,
      CHR 0xD0, CHR 0xD1, CHR 0xD2, CHR 0xD3, CHR 0xD4, CHR 0xD5, CHR 0xD6,
      CHR 0xD8, CHR 0xD9, CHR 0xDA, CHR 0xDB, CHR 0xDC, CHR 0xDD, CHR 0xDE]"

definition lower_chars :: string where
  "lower_chars = ''abcdefghijklmnopqrstuvwxyz'' @
     [CHR 0xE0, CHR 0xE1, CHR 0xE2, CHR 0xE3, CHR 0xE4, CHR 0xE5, CHR 0xE6, CHR 0xE7,
      CHR 0xE8, CHR 0xE9, CHR 0xEA, CHR 0xEB, CHR 0xEC, CHR 0xED, CHR 0xEE, CHR 0xEF,
      CHR 0xF0, CHR 0xF1, CHR 0xF2, CHR 0xF3, CHR 0xF4, CHR 0xF5, CHR 0xF6,
      CHR 0xF8, CHR 0xF9, CHR 0xFA, CHR 0xFB, CHR 0xFC, CHR 0xFD, CHR 0xFE]"

definition lower_char :: "char \<Rightarrow> char" where
  "lower_char c = (case map_of (zip upper_chars lower_chars) c of Some l \<Rightarrow> l | None \<Rightarrow> c)"

text \<open>\<^verbatim>\<open>s.lower()\<close>\<close>

definition lower :: "string \<Rightarrow> string" where
  "lower s = map lower_char s"

text \<open>\<^verbatim>\<open>s.strip()\<close> and \<^verbatim>\<open>s.strip(chars)\<close>\<close>

definition strip_chars :: "(char \<Rightarrow> bool) \<Rightarrow> string \<Rightarrow> string" where
  "strip_chars p s = rev (dropWhile p (rev (dropWhile p s)))"

definition strip :: "string \<Rightarrow> string" where
  "strip s = strip_chars isspace s"

text \<open>\<^verbatim>\<open>s.startswith(p)\<close> and \<^verbatim>\<open>s.endswith(p)\<close>\<close>

definition startswith :: "string \<Rightarrow> string \<Rightarrow> bool" where
  "startswith s p = (take (length p) s = p)"

definition endswith :: "string \<Rightarrow> string \<Rightarrow> bool" where
  "endswith s p = startswith (rev s) (rev p)"

text \<open>\<^verbatim>\<open>w in s\<close> for strings: \<open>w\<close> occurs in \<open>s\<close> as a substring.\<close>

fun contains :: "string \<Rightarrow> string \<Rightarrow> bool" where
  "contains [] w = (w = [])"
| "contains (x # xs) w = (startswith (x # xs) w \<or> contains xs w)"

text \<open>\<^verbatim>\<open>s.replace(c, new)\<close> for a one-character \<open>c\<close>.\<close>

definition replace_char :: "char \<Rightarrow> string \<Rightarrow> string \<Rightarrow> string" where
  "replace_char c new s = concat (map (\<lambda>x. if x = c then new else [x]) s)"

text \<open>\<^verbatim>\<open>s.split(c)\<close> for a one-character separator: the pieces between the separators,
  empty ones included.\<close>

fun split_on :: "char \<Rightarrow> string \<Rightarrow> string list" where
  "split_on c [] = [[]]"
| "split_on c (x # xs) =
     (if x = c then [] # split_on c xs
      else (case split_on c xs of p # ps \<Rightarrow> (x # p) # ps | [] \<Rightarrow> [[x]]))"

text \<open>\<^verbatim>\<open>s.split()\<close>: the maximal runs of characters that are not white space. \<open>cur\<close> is
  the run being read, reversed.\<close>

fun split_ws_from :: "string \<Rightarrow> string \<Rightarrow> string list" where
  "split_ws_from cur [] = (if cur = [] then [] else [rev cur])"
| "split_ws_from cur (x # xs) =
     (if isspace x then (if cur = [] then split_ws_from [] xs else rev cur # split_ws_from [] xs)
      else split_ws_from (x # cur) xs)"

definition split_ws :: "string \<Rightarrow> string list" where
  "split_ws s = split_ws_from [] s"

text \<open>\<^verbatim>\<open>str(n)\<close> for an integer.\<close>

fun str_nat :: "nat \<Rightarrow> string" where
  "str_nat n =
     (if n < 10 then [''0123456789'' ! n]
      else str_nat (n div 10) @ [''0123456789'' ! (n mod 10)])"

declare str_nat.simps [simp del]

definition str_int :: "int \<Rightarrow> string" where
  "str_int i = (if i < 0 then CHR ''-'' # str_nat (nat (- i)) else str_nat (nat i))"

text \<open>
  \<^verbatim>\<open>str(v)\<close>. What \<^verbatim>\<open>str\<close> prints for a float, a list or a dictionary (the shortest
  repr of a float, the quoting of a string inside a list) is not modelled: it is the
  parameter \<open>S\<close>.
\<close>

fun py_str :: "(json \<Rightarrow> string) \<Rightarrow> json \<Rightarrow> string" where
  "py_str S JNull = ''None''"
| "py_str S (JBool b) = (if b then ''True'' else ''False'')"
| "py_str S (JInt i) = str_int i"
| "py_str S (JStr s) = s"
| "py_str S v = S v"

section \<open>The patterns of the extractor\<close>

subsection \<open>The answer span\<close>


definition close_tag :: string where
  "close_tag = ''</answer>''"

definition ci_startswith :: "string \<Rightarrow> string \<Rightarrow> bool" where
  "ci_startswith s p = (lower (take (length p) s) = p)"

fun find_close :: "string \<Rightarrow> (string \<times> string) option" where
  "find_close [] = None"
| "find_close (c # cs) =
     (if ci_startswith (c # cs) close_tag then Some ([], drop (length close_tag) (c # cs))
      else (case find_close cs of None \<Rightarrow> None | Some (cap, rest) \<Rightarrow> Some (c # cap, rest)))"



subsection \<open>Numeric tokens\<close>


definition match_sign :: "string \<Rightarrow> string \<times> string" where
  "match_sign s = (case s of [] \<Rightarrow> ([], s) | c # cs \<Rightarrow> if c = CHR ''-'' then ([c], cs) else ([], s))"

definition match_fraction :: "string \<Rightarrow> string \<times> string" where
  "match_fraction s =
     (case s of [] \<Rightarrow> ([], s)
      | c # cs \<Rightarrow>
          if c = CHR ''.'' \<and> takeWhile isdigit cs \<noteq> []
          then (c # takeWhile isdigit cs, dropWhile isdigit cs) else ([], s))"

definition match_number :: "(char \<Rightarrow> bool) \<Rightarrow> bool \<Rightarrow> string \<Rightarrow> (string \<times> string) option" where
  "match_number body fraction s =
     (case match_sign s of (sign, s1) \<Rightarrow>
        (case s1 of [] \<Rightarrow> None
         | d # ds \<Rightarrow>
             if \<not> isdigit d then None
             else (case (if fraction then match_fraction (dropWhile body ds) else ([], dropWhile body ds)) of
                     (fr, rest) \<Rightarrow> Some (sign @ d # takeWhile body ds @ fr, rest))))"



text \<open>\<^verbatim>\<open>re.search(pattern, s)\<close> for a numeric pattern: the leftmost token.\<close>

fun search_number :: "(char \<Rightarrow> bool) \<Rightarrow> bool \<Rightarrow> string \<Rightarrow> string option" where
  "search_number body fraction [] = None"
| "search_number body fraction (c # cs) =
     (case match_number body fraction (c # cs) of
        Some (tok, rest) \<Rightarrow> Some tok
      | None \<Rightarrow> search_number body fraction cs)"

subsection \<open>Whole words\<close>











section \<open>Conversion to numbers\<close>

text \<open>
  \<^verbatim>\<open>float(s)\<close> rounds the decimal number \<open>s\<close> to the nearest binary64 value, a tie going to
  the even significand; \<^verbatim>\<open>int(x)\<close> cuts the fraction off and raises on an infinity or a
  NaN. The decimal number is \<open>a / b\<close> for natural numbers \<open>a\<close> and \<open>b\<close>.

  \<open>bit_len n\<close> is the number of binary digits of \<open>n\<close>, so \<open>a / b\<close> lies in
  \<open>[2 ^ e, 2 ^ (e + 1))\<close> for the \<open>e\<close> of \<open>round_double\<close>. A binary64 value in that range is a
  multiple of \<open>2 ^ (e - 52)\<close>, and of \<open>2 ^ - 1074\<close> where it is subnormal; a rounded value
  of \<open>2 ^ 1024\<close> or more is the infinity.
\<close>

fun bit_len :: "nat \<Rightarrow> nat" where
  "bit_len n = (if n = 0 then 0 else Suc (bit_len (n div 2)))"

declare bit_len.simps [simp del]

definition round_half_even :: "nat \<Rightarrow> nat \<Rightarrow> nat" where
  "round_half_even a b =
     (let q = a div b; r = a mod b in
      if 2 * r < b then q else if b < 2 * r then q + 1 else if even q then q else q + 1)"

definition round_double :: "nat \<Rightarrow> nat \<Rightarrow> pyfloat" where
  "round_double a b =
     (if a = 0 then Float 0 0
      else
        let e = (if b \<le> a then int (bit_len (a div b)) - 1
                 else - int (bit_len ((b + a - 1) div a - 1)));
            q = max (e - 52) (- 1074);
            m = (if 0 \<le> q then round_half_even a (b * 2 ^ nat q)
                 else round_half_even (a * 2 ^ nat (- q)) b)
        in if 0 \<le> q \<and> 2 ^ 1024 \<le> m * 2 ^ nat q then PosInf else Float (int m) q)"

definition digit_val :: "char \<Rightarrow> nat" where
  "digit_val c = code c - 48"

definition nat_of_digits :: "string \<Rightarrow> nat" where
  "nat_of_digits ds = foldl (\<lambda>a c. 10 * a + digit_val c) 0 ds"

definition negate :: "pyfloat \<Rightarrow> pyfloat" where
  "negate x = (case x of Float m e \<Rightarrow> Float (- m) e | PosInf \<Rightarrow> NegInf | NegInf \<Rightarrow> PosInf | NaN \<Rightarrow> NaN)"

text \<open>
  \<^verbatim>\<open>float(s)\<close> for the strings the numeric patterns produce: an optional minus sign,
  digits, and optionally a dot and more digits, at least one digit in all. Python reads
  more (exponents, \<^verbatim>\<open>inf\<close>, surrounding white space); no token of the patterns has any of
  that, and the model raises \<^verbatim>\<open>ValueError\<close> for it.
\<close>

definition py_float :: "string \<Rightarrow> py_error + pyfloat" where
  "py_float s =
     (case match_sign s of (sign, s1) \<Rightarrow>
        let ip = takeWhile isdigit s1;
            r = dropWhile isdigit s1;
            fp = (case r of [] \<Rightarrow> [] | c # cs \<Rightarrow> cs)
        in if (r = [] \<or> (hd r = CHR ''.'' \<and> list_all isdigit fp)) \<and> ip @ fp \<noteq> []
           then (let x = round_double (nat_of_digits (ip @ fp)) (10 ^ length fp)
                 in Inr (if sign = [] then x else negate x))
           else Inl ValueError)"

text \<open>\<^verbatim>\<open>int(x)\<close> for a float.\<close>

definition int_of_float :: "pyfloat \<Rightarrow> py_error + int" where
  "int_of_float x =
     (case x of
        Float m e \<Rightarrow> Inr (if 0 \<le> e then m * 2 ^ nat e else sgn m * (\<bar>m\<bar> div 2 ^ nat (- e)))
      | PosInf \<Rightarrow> Inl OverflowError
      | NegInf \<Rightarrow> Inl OverflowError
      | NaN \<Rightarrow> Inl ValueError)"

text \<open>
  \<^verbatim>\<open>int(float(s))\<close> inside \<^verbatim>\<open>try: ... except ValueError:\<close>. \<open>None\<close> stands for the
  \<^verbatim>\<open>ValueError\<close> that the handler takes; any other exception leaves the function.
\<close>

definition int_float :: "string \<Rightarrow> py_error + int option" where
  "int_float s =
     (case py_float s of
        Inl e \<Rightarrow> if e = ValueError then Inr None else Inl e
      | Inr x \<Rightarrow>
          (case int_of_float x of
             Inl e \<Rightarrow> if e = ValueError then Inr None else Inl e
           | Inr i \<Rightarrow> Inr (Some i)))"

section \<open>The answer extractor\<close>












subsection \<open>Question types and dispatch\<close>

text \<open>The labels of \<^verbatim>\<open>eval/common/mapping.py\<close>.\<close>

definition COUNT_FREQUENCY_TOOL :: string where
  "COUNT_FREQUENCY_TOOL = ''Count Frequency(Tool)''"

definition FIND_DUPLICATES_TOOL :: string where
  "FIND_DUPLICATES_TOOL = ''Find Duplicates(Tool)''"

definition FIND_TARGET_OFFSETS_TOOL :: string where
  "FIND_TARGET_OFFSETS_TOOL = ''Find Target Offsets(Tool)''"

definition COUNT_CORRECTNESS_ENV :: string where
  "COUNT_CORRECTNESS_ENV = ''Count Correctness(Env)''"

definition COUNT_FREQUENCY_ENV :: string where
  "COUNT_FREQUENCY_ENV = ''Count Frequency(Env)''"

definition FIND_ROUND_LARGEST_VALUE_ENV :: string where
  "FIND_ROUND_LARGEST_VALUE_ENV = ''Find Round with Largest Value(Env)''"

definition WEIGHTED_SUMMATION_ENV :: string where
  "WEIGHTED_SUMMATION_ENV = ''Weighted Summation(Env)''"

definition INTERSECTION :: string where
  "INTERSECTION = ''Intersection''"

definition QUESTION_TYPES :: "string list" where
  "QUESTION_TYPES = [COUNT_FREQUENCY_TOOL, FIND_DUPLICATES_TOOL, FIND_TARGET_OFFSETS_TOOL,
     COUNT_CORRECTNESS_ENV, COUNT_FREQUENCY_ENV, FIND_ROUND_LARGEST_VALUE_ENV,
     WEIGHTED_SUMMATION_ENV, INTERSECTION]"

definition number_types :: "string list" where
  "number_types = [COUNT_FREQUENCY_TOOL, COUNT_CORRECTNESS_ENV, COUNT_FREQUENCY_ENV,
     FIND_ROUND_LARGEST_VALUE_ENV, WEIGHTED_SUMMATION_ENV]"

lemmas question_type_defs =
  COUNT_FREQUENCY_TOOL_def FIND_DUPLICATES_TOOL_def FIND_TARGET_OFFSETS_TOOL_def
  COUNT_CORRECTNESS_ENV_def COUNT_FREQUENCY_ENV_def FIND_ROUND_LARGEST_VALUE_ENV_def
  WEIGHTED_SUMMATION_ENV_def INTERSECTION_def QUESTION_TYPES_def number_types_def




section \<open>The scorer\<close>

text \<open>
  \<^verbatim>\<open>
  def _to_number(val: Any) -> Optional[int]:
      if val is None:
          return None
      if isinstance(val, int):
          return val
      if isinstance(val, float):
          return int(val)
      text = str(val)
      match = re.search(r"-?\d+(?:\.\d+)?", text)
      if not match:
          return None
      try:
          return int(float(match.group(0)))
      except ValueError:
          return None
  \<close>
  A \<^verbatim>\<open>bool\<close> is an \<^verbatim>\<open>int\<close> in Python: \<^verbatim>\<open>True\<close> is returned as it is and compares equal
  to 1.
\<close>

definition to_number :: "(json \<Rightarrow> string) \<Rightarrow> json \<Rightarrow> py_error + int option" where
  "to_number S val =
     (case val of
        JNull \<Rightarrow> Inr None
      | JBool b \<Rightarrow> Inr (Some (if b then 1 else 0))
      | JInt i \<Rightarrow> Inr (Some i)
      | JFloat x \<Rightarrow> map_sum id Some (int_of_float x)
      | _ \<Rightarrow>
          (case search_number isdigit True (py_str S val) of
             None \<Rightarrow> Inr None
           | Some tok \<Rightarrow> int_float tok))"

text \<open>
  \<^verbatim>\<open>
  def _normalize_name(name: str, *, knowledge_label: str) -> str:
      if not name:
          return ""
      normalized = str(name).strip().lower()
      if knowledge_label == "knowledge_free":
          return (
              normalized.replace(" ", "")
              .replace("-", "")
              .replace("_", "")
              .replace("'", "")
              .replace('"', "")
              .replace(".", "")
          )
      return (
          normalized.replace(" ", "")
          .replace("-", "")
          .replace("'", "")
          .replace('"', "")
          .replace(".", "")
      )
  \<close>
  Every caller passes a string.
\<close>

definition normalize_name :: "string \<Rightarrow> string \<Rightarrow> string" where
  "normalize_name knowledge_label name =
     (if name = [] then []
      else
        let normalized = lower (strip name) in
        if knowledge_label = ''knowledge_free'' then
          (replace_char (CHR ''.'') [] \<circ> replace_char (CHR 0x22) [] \<circ> replace_char (CHR 0x27) [] \<circ>
           replace_char (CHR ''_'') [] \<circ> replace_char (CHR ''-'') [] \<circ> replace_char (CHR '' '') [])
            normalized
        else
          (replace_char (CHR ''.'') [] \<circ> replace_char (CHR 0x22) [] \<circ> replace_char (CHR 0x27) [] \<circ>
           replace_char (CHR ''-'') [] \<circ> replace_char (CHR '' '') [])
            normalized)"

text \<open>
  \<^verbatim>\<open>
  def _normalize_boolean(val: Any) -> Optional[bool]:
      if val is None:
          return None
      if isinstance(val, bool):
          return val
      if isinstance(val, int):
          return val > 0
      text = str(val).lower().strip()
      if any(word in text for word in ["yes", "true", "1"]):
          return True
      if any(word in text for word in ["no", "false", "0"]):
          return False
      return None
  \<close>
\<close>

definition normalize_boolean :: "(json \<Rightarrow> string) \<Rightarrow> json \<Rightarrow> bool option" where
  "normalize_boolean S val =
     (case val of
        JNull \<Rightarrow> None
      | JBool b \<Rightarrow> Some b
      | JInt i \<Rightarrow> Some (0 < i)
      | _ \<Rightarrow>
          (let text = strip (lower (py_str S val)) in
           if list_ex (contains text) [''yes'', ''true'', ''1''] then Some True
           else if list_ex (contains text) [''no'', ''false'', ''0''] then Some False
           else None))"

text \<open>
  \<^verbatim>\<open>re.split(r"[,;]|\s+and\s+", text, flags=re.IGNORECASE)\<close>: \<open>match_ws_and\<close> matches the
  second alternative at the start of a string and returns what follows the match.
\<close>

definition match_ws_and :: "string \<Rightarrow> string option" where
  "match_ws_and s =
     (let r = dropWhile isspace s in
      if takeWhile isspace s \<noteq> [] \<and> lower (take 3 r) = ''and'' \<and> takeWhile isspace (drop 3 r) \<noteq> []
      then Some (dropWhile isspace (drop 3 r)) else None)"

lemma match_ws_and_shorter: "match_ws_and s = Some rest \<Longrightarrow> length rest < length s"
proof -
  assume "match_ws_and s = Some rest"
  then have r: "rest = dropWhile isspace (drop 3 (dropWhile isspace s))"
    and w: "takeWhile isspace s \<noteq> []"
    by (auto simp: match_ws_and_def Let_def split: if_splits)
  have "length rest \<le> length (drop 3 (dropWhile isspace s))"
    unfolding r by (rule length_dropWhile_le)
  also have "\<dots> \<le> length (dropWhile isspace s)" by simp
  also have "\<dots> < length s"
  proof -
    have "length (takeWhile isspace s) + length (dropWhile isspace s) = length s"
      by (metis length_append takeWhile_dropWhile_id)
    with w show ?thesis by (cases "takeWhile isspace s") auto
  qed
  finally show ?thesis .
qed

function re_split :: "string \<Rightarrow> string list" where
  "re_split [] = [[]]"
| "re_split (c # cs) =
     (if c = CHR '','' \<or> c = CHR '';'' then [] # re_split cs
      else (case match_ws_and (c # cs) of
              Some rest \<Rightarrow> [] # re_split rest
            | None \<Rightarrow> (case re_split cs of p # ps \<Rightarrow> (c # p) # ps | [] \<Rightarrow> [[c]])))"
  by pat_completeness auto
termination
proof (relation "measure length")
  show "wf (measure length)" by simp
next
  fix c cs rest
  assume "match_ws_and (c # cs) = Some rest"
  then have "length rest < length (c # cs)" by (rule match_ws_and_shorter)
  then show "(rest, c # cs) \<in> measure length" by simp
qed simp_all

text \<open>
  \<^verbatim>\<open>
  def _normalize_pair_list(val: Any, *, knowledge_label: str) -> Optional[List[str]]:
      if val is None:
          return None
      if isinstance(val, list):
          return [_normalize_name(name, knowledge_label=knowledge_label) for name in val if isinstance(name, str)]
      if isinstance(val, str):
          text = val.strip("[](){}")
          parts = re.split(r"[,;]|\s+and\s+", text, flags=re.IGNORECASE)
          if len(parts) >= 2:
              return [_normalize_name(p.strip(), knowledge_label=knowledge_label) for p in parts]
      return None
  \<close>
\<close>

fun strs_of :: "json list \<Rightarrow> string list" where
  "strs_of [] = []"
| "strs_of (JStr s # vs) = s # strs_of vs"
| "strs_of (v # vs) = strs_of vs"

definition normalize_pair_list :: "string \<Rightarrow> json \<Rightarrow> string list option" where
  "normalize_pair_list knowledge_label val =
     (case val of
        JList names \<Rightarrow> Some (map (normalize_name knowledge_label) (strs_of names))
      | JStr s \<Rightarrow>
          (let text = strip_chars (\<lambda>c. c \<in> set ''[](){}'') s;
               parts = re_split text
           in if 2 \<le> length parts
              then Some (map (\<lambda>p. normalize_name knowledge_label (strip p)) parts)
              else None)
      | _ \<Rightarrow> None)"

text \<open>
  \<^verbatim>\<open>
  def _compare_pair_lists(pred: List[str], gt: List[str]) -> float:
      if not pred or not gt:
          return 0.0
      if len(pred) == 2 and len(gt) == 2:
          if pred[0] == gt[0] and pred[1] == gt[1]:
              return 1.0
      if len(pred) == 1 and len(gt) == 2:
          if pred[0] == gt[0]:
              return 0.5
      return 0.0
  \<close>
\<close>

definition compare_pair_lists :: "string list \<Rightarrow> string list \<Rightarrow> rat" where
  "compare_pair_lists pred gt =
     (if pred = [] \<or> gt = [] then 0
      else if (length pred = 2 \<and> length gt = 2) \<and> (pred ! 0 = gt ! 0 \<and> pred ! 1 = gt ! 1) then 1
      else if (length pred = 1 \<and> length gt = 2) \<and> pred ! 0 = gt ! 0 then 1 / 2
      else 0)"

text \<open>
  \<^verbatim>\<open>
  def _to_set(val: Any) -> List[str]:
      if val is None:
          return []
      if isinstance(val, list):
          return [str(v).strip() for v in val if str(v).strip()]
      if isinstance(val, str):
          parts = [v.strip() for chunk in val.replace("\n", ",").split(",") for v in chunk.split() if v.strip()]
          return parts
      return []
  \<close>
\<close>

definition to_set :: "(json \<Rightarrow> string) \<Rightarrow> json \<Rightarrow> string list" where
  "to_set S val =
     (case val of
        JList vs \<Rightarrow> map (\<lambda>v. strip (py_str S v)) (filter (\<lambda>v. strip (py_str S v) \<noteq> []) vs)
      | JStr s \<Rightarrow>
          concat (map (\<lambda>chunk. map strip (filter (\<lambda>v. strip v \<noteq> []) (split_ws chunk)))
                    (split_on (CHR '','') (replace_char (CHR 0x0A) '','' s)))
      | _ \<Rightarrow> [])"

text \<open>
  \<^verbatim>\<open>
  def _pred_key(pred: Dict[str, Any]) -> Optional[str]:
      sid = pred.get("id")
      if sid is not None:
          return str(sid)
      sample_id = pred.get("sample_id")
      round_id = pred.get("round")
      if sample_id is not None and round_id is not None:
          return f"{sample_id}_r{round_id}"
      return None
  \<close>
\<close>

definition pred_key :: "(json \<Rightarrow> string) \<Rightarrow> pydict \<Rightarrow> string option" where
  "pred_key S pred =
     (let sid = get pred ''id'' in
      if sid \<noteq> JNull then Some (py_str S sid)
      else
        let sample_id = get pred ''sample_id'';
            round_id = get pred ''round''
        in if sample_id \<noteq> JNull \<and> round_id \<noteq> JNull
           then Some (py_str S sample_id @ ''_r'' @ py_str S round_id)
           else None)"

subsection \<open>Dataset context\<close>

text \<open>
  \<^verbatim>\<open>
  def infer_context_from_path(path: Path) -> Tuple[str, str, str, str]:
      parts = [p.lower() for p in path.parts]
      match = None
      for part in parts:
          if re.fullmatch(r"k[if]-[cv]", part):
              match = part
              break
      if not match:
          raise ValueError(f"Cannot infer knowledge/history type from path: {path}")

      knowledge_key, history_key = match.split("-")
      knowledge_label = KNOWLEDGE_TYPE_LABELS.get(knowledge_key)
      history_label = HISTORY_TYPE_LABELS.get(history_key)
      if not knowledge_label or not history_label:
          raise ValueError(f"Invalid knowledge/history abbreviation in path: {match}")
      return knowledge_key, knowledge_label, history_key, history_label
  \<close>
  The path is the list of its parts.
\<close>

definition KNOWLEDGE_TYPE_LABELS :: "string \<rightharpoonup> string" where
  "KNOWLEDGE_TYPE_LABELS = [''ki'' \<mapsto> ''knowledge_intensive'', ''kf'' \<mapsto> ''knowledge_free'']"

definition HISTORY_TYPE_LABELS :: "string \<rightharpoonup> string" where
  "HISTORY_TYPE_LABELS = [''c'' \<mapsto> ''Concise-Response'', ''v'' \<mapsto> ''Verbose-Response'']"

fun context_part :: "string \<Rightarrow> bool" where
  "context_part [k, x, h, y] =
     (k = CHR ''k'' \<and> (x = CHR ''i'' \<or> x = CHR ''f'') \<and> h = CHR ''-'' \<and> (y = CHR ''c'' \<or> y = CHR ''v''))"
| "context_part part = False"

definition infer_context_from_path ::
  "string list \<Rightarrow> py_error + string \<times> string \<times> string \<times> string" where
  "infer_context_from_path path =
     (case filter context_part (map lower path) of
        [] \<Rightarrow> Inl ValueError
      | match # others \<Rightarrow>
          (let knowledge_key = take 2 match; history_key = drop 3 match in
           case (KNOWLEDGE_TYPE_LABELS knowledge_key, HISTORY_TYPE_LABELS history_key) of
             (Some knowledge_label, Some history_label) \<Rightarrow>
               if knowledge_label = [] \<or> history_label = [] then Inl ValueError
               else Inr (knowledge_key, knowledge_label, history_key, history_label)
           | _ \<Rightarrow> Inl ValueError))"

text \<open>
  \<^verbatim>\<open>
  def require_single_question_type(rows: Iterable[Dict]) -> str:
      types = {row.get("question_type") for row in rows if row.get("question_type")}
      if not types:
          raise ValueError("Dataset has no question_type field.")
      if len(types) != 1:
          raise ValueError(f"Dataset contains multiple question_type values: {sorted(types)}")
      question_type = next(iter(types))
      if question_type not in QUESTION_TYPES:
          raise ValueError(f"Unknown question_type: {question_type}")
      return question_type
  \<close>
  Building the set raises \<^verbatim>\<open>TypeError\<close> on a list or a dictionary. Of the other values
  only a string can be in \<^verbatim>\<open>QUESTION_TYPES\<close>, so the function returns when all the values
  are one string of that set and raises \<^verbatim>\<open>ValueError\<close> otherwise.
\<close>

fun unhashable :: "json \<Rightarrow> bool" where
  "unhashable (JList vs) = True"
| "unhashable (JDict kvs) = True"
| "unhashable v = False"

definition require_single_question_type :: "pydict list \<Rightarrow> py_error + string" where
  "require_single_question_type rows =
     (let types = filter truthy (map (\<lambda>row. get row ''question_type'') rows) in
      if list_ex unhashable types then Inl TypeError
      else (case types of
              JStr question_type # others \<Rightarrow>
                if list_all (\<lambda>t. t = JStr question_type) others \<and> question_type \<in> set QUESTION_TYPES
                then Inr question_type else Inl ValueError
            | _ \<Rightarrow> Inl ValueError))"

subsection \<open>The run\<close>

text \<open>
  \<^verbatim>\<open>data = {row["id"]: row for row in rows}\<close>: a row without the key raises
  \<^verbatim>\<open>KeyError\<close>, an id that is a list or a dictionary raises \<^verbatim>\<open>TypeError\<close>, and a later row
  replaces an earlier one of the same id. The dictionary is only ever read with a string
  (\<^verbatim>\<open>_pred_key\<close> returns a \<^verbatim>\<open>str\<close>), which no key of another type equals, so the model
  keeps the string keys.
\<close>

fun build_data :: "pydict list \<Rightarrow> (string \<rightharpoonup> pydict) \<Rightarrow> py_error + (string \<rightharpoonup> pydict)" where
  "build_data [] data = Inr data"
| "build_data (row # rows) data =
     (case row ''id'' of
        None \<Rightarrow> Inl KeyError
      | Some (JList vs) \<Rightarrow> Inl TypeError
      | Some (JDict kvs) \<Rightarrow> Inl TypeError
      | Some (JStr key) \<Rightarrow> build_data rows (data(key \<mapsto> row))
      | Some v \<Rightarrow> build_data rows data)"

text \<open>
  \<^verbatim>\<open>
      key = _pred_key(pred)
      if not key or key not in data:
          continue
  \<close>
  \<open>matched_row\<close> is \<^verbatim>\<open>data[key]\<close> for a prediction that passes this test, \<open>None\<close> for one
  that the loop skips.
\<close>

definition matched_row :: "(json \<Rightarrow> string) \<Rightarrow> (string \<rightharpoonup> pydict) \<Rightarrow> pydict \<Rightarrow> pydict option" where
  "matched_row S data pred =
     (case pred_key S pred of
        None \<Rightarrow> None
      | Some key \<Rightarrow> if key = [] then None else data key)"

text \<open>
  The per-sample F1 of the verbose intersection questions:
  \<^verbatim>\<open>
          gt_set = set(_to_set(data[key].get("answer")))
          pred_val = pred.get("pred_answer")
          if pred_val is None:
              pred_val = pred.get("pred_intersection")
          pred_set = set(_to_set(pred_val))
          if not gt_set and not pred_set:
              f1 = 1.0
          elif not gt_set or not pred_set:
              f1 = 0.0
          else:
              inter = len(gt_set & pred_set)
              prec = inter / len(pred_set) if pred_set else 0.0
              rec = inter / len(gt_set) if gt_set else 0.0
              f1 = 2 * prec * rec / (prec + rec) if (prec + rec) else 0.0
  \<close>
\<close>

definition set_f1 :: "string set \<Rightarrow> string set \<Rightarrow> rat" where
  "set_f1 gt_set pred_set =
     (if gt_set = {} \<and> pred_set = {} then 1
      else if gt_set = {} \<or> pred_set = {} then 0
      else
        let inter = card (gt_set \<inter> pred_set);
            prec = (if pred_set \<noteq> {} then of_nat inter / of_nat (card pred_set) else 0);
            rec = (if gt_set \<noteq> {} then of_nat inter / of_nat (card gt_set) else 0)
        in if prec + rec \<noteq> 0 then 2 * prec * rec / (prec + rec) else 0)"

definition intersection_pred_val :: "pydict \<Rightarrow> json" where
  "intersection_pred_val pred =
     (let pred_val = get pred ''pred_answer'' in
      if pred_val = JNull then get pred ''pred_intersection'' else pred_val)"

definition sample_f1 :: "(json \<Rightarrow> string) \<Rightarrow> pydict \<Rightarrow> pydict \<Rightarrow> rat" where
  "sample_f1 S gt_data pred =
     (let gt_set = set (to_set S (get gt_data ''answer''));
          pred_set = set (to_set S (intersection_pred_val pred))
      in set_f1 gt_set pred_set)"

fun f1_loop ::
  "(json \<Rightarrow> string) \<Rightarrow> (string \<rightharpoonup> pydict) \<Rightarrow> pydict list \<Rightarrow> nat \<times> rat list \<Rightarrow> nat \<times> rat list" where
  "f1_loop S data [] (matched, f1s) = (matched, f1s)"
| "f1_loop S data (pred # preds) (matched, f1s) =
     (case matched_row S data pred of
        None \<Rightarrow> f1_loop S data preds (matched, f1s)
      | Some gt_data \<Rightarrow> f1_loop S data preds (matched + 1, f1s @ [sample_f1 S gt_data pred]))"

text \<open>
  One pass of the second loop of \<^verbatim>\<open>evaluate\<close> for a matched prediction: an exception, or
  \<open>None\<close> when the sample leaves the loop body before \<^verbatim>\<open>total += 1\<close>, or the amount added
  to \<^verbatim>\<open>correct\<close>.
  \<^verbatim>\<open>
          if question_type in {COUNT_FREQUENCY_TOOL, COUNT_CORRECTNESS_ENV, COUNT_FREQUENCY_ENV,
                               FIND_ROUND_LARGEST_VALUE_ENV, WEIGHTED_SUMMATION_ENV}:
              gt_num = _to_number(gt)
              pred_num = _to_number(pred_val)
              if gt_num is None:
                  continue
              total += 1
              if pred_num is not None and pred_num == gt_num:
                  correct += 1
              continue

          if question_type == FIND_DUPLICATES_TOOL:
              gt_bool = _normalize_boolean(gt)
              pred_bool = _normalize_boolean(pred_val)
              if gt_bool is None:
                  continue
              total += 1
              if pred_bool is not None and pred_bool == gt_bool:
                  correct += 1
              continue

          if question_type == FIND_TARGET_OFFSETS_TOOL:
              gt_list = _normalize_pair_list(gt, knowledge_label=knowledge_label)
              pred_list = _normalize_pair_list(pred_val, knowledge_label=knowledge_label)
              if gt_list is None:
                  continue
              total += 1
              score = 0.0
              if pred_list is not None:
                  score = _compare_pair_lists(pred_list, gt_list)
              correct += score
              continue

          if question_type == INTERSECTION and history_label == "Concise-Response":
              gt_norm = _normalize_name(str(gt or ""), knowledge_label=knowledge_label)
              pred_norm = _normalize_name(str(pred_val or ""), knowledge_label=knowledge_label)
              if not gt_norm:
                  continue
              total += 1
              if pred_norm == gt_norm:
                  correct += 1
              continue
  \<close>
\<close>

definition str_or_empty :: "(json \<Rightarrow> string) \<Rightarrow> json \<Rightarrow> string" where
  "str_or_empty S v = (if truthy v then py_str S v else [])"

definition score_sample ::
  "(json \<Rightarrow> string) \<Rightarrow> string \<Rightarrow> string \<Rightarrow> string \<Rightarrow> json \<Rightarrow> json \<Rightarrow> py_error + rat option" where
  "score_sample S question_type knowledge_label history_label gt pred_val =
     (if question_type \<in> set number_types then
        (case to_number S gt of
           Inl e \<Rightarrow> Inl e
         | Inr gt_num \<Rightarrow>
             (case to_number S pred_val of
                Inl e \<Rightarrow> Inl e
              | Inr pred_num \<Rightarrow>
                  (case gt_num of
                     None \<Rightarrow> Inr None
                   | Some g \<Rightarrow> Inr (Some (if pred_num \<noteq> None \<and> pred_num = gt_num then 1 else 0)))))
      else if question_type = FIND_DUPLICATES_TOOL then
        (let gt_bool = normalize_boolean S gt;
             pred_bool = normalize_boolean S pred_val
         in case gt_bool of
              None \<Rightarrow> Inr None
            | Some g \<Rightarrow> Inr (Some (if pred_bool \<noteq> None \<and> pred_bool = gt_bool then 1 else 0)))
      else if question_type = FIND_TARGET_OFFSETS_TOOL then
        (let gt_list = normalize_pair_list knowledge_label gt;
             pred_list = normalize_pair_list knowledge_label pred_val
         in case gt_list of
              None \<Rightarrow> Inr None
            | Some g \<Rightarrow>
                Inr (Some (case pred_list of None \<Rightarrow> 0 | Some p \<Rightarrow> compare_pair_lists p g)))
      else if question_type = INTERSECTION \<and> history_label = ''Concise-Response'' then
        (let gt_norm = normalize_name knowledge_label (str_or_empty S gt);
             pred_norm = normalize_name knowledge_label (str_or_empty S pred_val)
         in if gt_norm = [] then Inr None
            else Inr (Some (if pred_norm = gt_norm then 1 else 0)))
      else Inr None)"

fun accuracy_loop ::
  "(json \<Rightarrow> string) \<Rightarrow> string \<Rightarrow> string \<Rightarrow> string \<Rightarrow> (string \<rightharpoonup> pydict) \<Rightarrow> pydict list \<Rightarrow>
   nat \<times> nat \<times> rat \<Rightarrow> py_error + nat \<times> nat \<times> rat" where
  "accuracy_loop S question_type knowledge_label history_label data [] (matched, ntotal, correct) =
     Inr (matched, ntotal, correct)"
| "accuracy_loop S question_type knowledge_label history_label data (pred # preds) (matched, ntotal, correct) =
     (case matched_row S data pred of
        None \<Rightarrow>
          accuracy_loop S question_type knowledge_label history_label data preds (matched, ntotal, correct)
      | Some gt_data \<Rightarrow>
          (case score_sample S question_type knowledge_label history_label
                  (get gt_data ''answer'') (get pred ''pred_answer'') of
             Inl e \<Rightarrow> Inl e
           | Inr None \<Rightarrow>
               accuracy_loop S question_type knowledge_label history_label data preds
                 (matched + 1, ntotal, correct)
           | Inr (Some sc) \<Rightarrow>
               accuracy_loop S question_type knowledge_label history_label data preds
                 (matched + 1, ntotal + 1, correct + sc)))"

text \<open>The dictionary that \<^verbatim>\<open>evaluate\<close> returns; the F1 report has no \<^verbatim>\<open>correct\<close> and no
  \<^verbatim>\<open>total\<close>.\<close>

record report =
  report_question_type :: string
  report_knowledge_type :: string
  report_history_type :: string
  report_metric :: string
  report_score :: rat
  report_correct :: "rat option"
  report_total :: "nat option"
  report_matched :: nat
  report_skipped :: int

text \<open>
  \<^verbatim>\<open>evaluate(dataset_path, pred_path)\<close>, given the rows and the prediction records that
  \<^verbatim>\<open>load_jsonl\<close> read from the two files.
  \<^verbatim>\<open>
      avg_f1 = sum(f1s) / len(f1s) if f1s else 0.0
      return {..., "metric": "f1", "score": avg_f1, "matched": matched,
              "skipped": len(preds) - matched}
      ...
      score = correct / total if total > 0 else 0.0
      return {..., "metric": "accuracy", "score": score, "correct": correct, "total": total,
              "matched": matched, "skipped": len(preds) - matched}
  \<close>
\<close>

definition evaluate ::
  "(json \<Rightarrow> string) \<Rightarrow> string list \<Rightarrow> pydict list \<Rightarrow> pydict list \<Rightarrow> py_error + report" where
  "evaluate S dataset_path rows preds =
     (case require_single_question_type rows of
        Inl e \<Rightarrow> Inl e
      | Inr question_type \<Rightarrow>
     (case infer_context_from_path dataset_path of
        Inl e \<Rightarrow> Inl e
      | Inr (knowledge_key, knowledge_label, history_key, history_label) \<Rightarrow>
     (case build_data rows Map.empty of
        Inl e \<Rightarrow> Inl e
      | Inr data \<Rightarrow>
          if question_type = INTERSECTION \<and> history_label = ''Verbose-Response'' then
            (case f1_loop S data preds (0, []) of
               (matched, f1s) \<Rightarrow>
                 Inr \<lparr>report_question_type = question_type,
                      report_knowledge_type = knowledge_label,
                      report_history_type = history_label,
                      report_metric = ''f1'',
                      report_score = (if f1s \<noteq> [] then sum_list f1s / of_nat (length f1s) else 0),
                      report_correct = None,
                      report_total = None,
                      report_matched = matched,
                      report_skipped = int (length preds) - int matched\<rparr>)
          else
            (case accuracy_loop S question_type knowledge_label history_label data preds (0, 0, 0) of
               Inl e \<Rightarrow> Inl e
             | Inr (matched, ntotal, correct) \<Rightarrow>
                 Inr \<lparr>report_question_type = question_type,
                      report_knowledge_type = knowledge_label,
                      report_history_type = history_label,
                      report_metric = ''accuracy'',
                      report_score = (if 0 < ntotal then correct / of_nat ntotal else 0),
                      report_correct = Some correct,
                      report_total = Some ntotal,
                      report_matched = matched,
                      report_skipped = int (length preds) - int matched\<rparr>))))"

section \<open>Texts with and without an answer span\<close>



section \<open>Properties\<close>

lemmas char_defs =
  isspace_def isdigit_def isword_def code_def lower_def lower_char_def upper_chars_def
  lower_chars_def

lemmas str_defs =
  strip_def strip_chars_def startswith_def endswith_def replace_char_def split_ws_def

subsection \<open>Scoring an ordered pair\<close>

lemma compare_pair_lists_eq:
  "compare_pair_lists p g =
     (if length g = 2 \<and> p = g then 1 else if length g = 2 \<and> p = [hd g] then 1 / 2 else 0)"
proof (cases "length g = 2")
  case False
  then show ?thesis by (auto simp: compare_pair_lists_def)
next
  case True
  then obtain a b where g: "g = [a, b]"
    by (metis (no_types, opaque_lifting) One_nat_def Suc_1 length_0_conv length_Suc_conv)
  show ?thesis
  proof (cases p)
    case Nil
    then show ?thesis using g by (simp add: compare_pair_lists_def)
  next
    case (Cons x xs)
    note p = this
    show ?thesis
    proof (cases xs)
      case Nil
      with p g show ?thesis by (simp add: compare_pair_lists_def)
    next
      case (Cons y ys)
      with p g show ?thesis by (cases ys) (auto simp: compare_pair_lists_def)
    qed
  qed
qed

text \<open>
  C3, as the code has it. For a find-target-offsets sample whose ground truth normalizes to
  the list \<open>g\<close>, the score is 1 when \<open>g\<close> has exactly two elements and the normalized
  prediction is equal to \<open>g\<close> (so it has exactly two elements too); it is 1/2 when \<open>g\<close> has
  exactly two elements and the normalized prediction is the one-element list of \<open>g\<close>'s
  first element; it is 0 in every other case, so for a prediction of three or more elements
  and for a prediction that does not normalize.
\<close>

theorem pair_score:
  assumes "normalize_pair_list knowledge_label gt = Some g"
  shows "score_sample S FIND_TARGET_OFFSETS_TOOL knowledge_label history_label gt pred_val =
     Inr (Some (case normalize_pair_list knowledge_label pred_val of
                  None \<Rightarrow> 0
                | Some p \<Rightarrow>
                    if length g = 2 \<and> p = g then 1
                    else if length g = 2 \<and> p = [hd g] then 1 / 2
                    else 0))"
  using assms
  by (simp add: score_sample_def question_type_defs compare_pair_lists_eq split: option.splits)

theorem pair_score_witness:
  "normalize_pair_list ''knowledge_intensive'' (JList [JStr ''Eevee'', JStr ''Pikachu'']) =
     Some [''eevee'', ''pikachu''] \<and>
   score_sample (\<lambda>v. []) FIND_TARGET_OFFSETS_TOOL ''knowledge_intensive'' ''Verbose-Response''
     (JList [JStr ''Eevee'', JStr ''Pikachu'']) (JList [JStr ''Eevee'']) = Inr (Some (1 / 2))"
proof -
  have gt: "normalize_pair_list ''knowledge_intensive'' (JList [JStr ''Eevee'', JStr ''Pikachu'']) =
      Some [''eevee'', ''pikachu'']"
    by (simp add: normalize_pair_list_def normalize_name_def char_defs str_defs)
  have pred: "normalize_pair_list ''knowledge_intensive'' (JList [JStr ''Eevee'']) = Some [''eevee'']"
    by (simp add: normalize_pair_list_def normalize_name_def char_defs str_defs)
  show ?thesis
    using pair_score [OF gt, of "\<lambda>v. []" "''Verbose-Response''" "JList [JStr ''Eevee'']"] gt
    by (simp add: pred)
qed

text \<open>
  C3 as the specification states it fails: a prediction of three elements whose first two
  are the two ground-truth elements scores 0, not 1.
\<close>

theorem pair_score_counterexample:
  "normalize_pair_list ''knowledge_intensive'' (JList [JStr ''Eevee'', JStr ''Pikachu'']) =
     Some [''eevee'', ''pikachu''] \<and>
   normalize_pair_list ''knowledge_intensive''
     (JList [JStr ''Eevee'', JStr ''Pikachu'', JStr ''Mew'']) =
     Some [''eevee'', ''pikachu'', ''mew''] \<and>
   score_sample (\<lambda>v. []) FIND_TARGET_OFFSETS_TOOL ''knowledge_intensive'' ''Verbose-Response''
     (JList [JStr ''Eevee'', JStr ''Pikachu''])
     (JList [JStr ''Eevee'', JStr ''Pikachu'', JStr ''Mew'']) = Inr (Some 0)"
  by (simp add: score_sample_def question_type_defs normalize_pair_list_def normalize_name_def
      char_defs str_defs compare_pair_lists_def)

subsection \<open>Substrings\<close>






subsection \<open>Normalizing a boolean\<close>



subsection \<open>Answer spans\<close>





lemma find_close_Some:
  "find_close s = Some (cap, rest) \<Longrightarrow>
     \<exists>c. s = cap @ c @ rest \<and> lower c = close_tag"
proof (induction s arbitrary: cap)
  case Nil
  then show ?case by simp
next
  case (Cons x xs)
  show ?case
  proof (cases "ci_startswith (x # xs) close_tag")
    case True
    with Cons.prems have "cap = []" "rest = drop (length close_tag) (x # xs)" by auto
    moreover from True have "lower (take (length close_tag) (x # xs)) = close_tag"
      by (simp add: ci_startswith_def)
    ultimately have "x # xs = cap @ take (length close_tag) (x # xs) @ rest \<and>
        lower (take (length close_tag) (x # xs)) = close_tag" by simp
    then show ?thesis by blast
  next
    case False
    with Cons.prems obtain cap' where c: "find_close xs = Some (cap', rest)" "cap = x # cap'"
      by (auto split: option.splits)
    with Cons.IH obtain c where "xs = cap' @ c @ rest" "lower c = close_tag" by blast
    with c show ?thesis by auto
  qed
qed



subsection \<open>Set F1\<close>



lemma set_to_set_JList:
  "set (to_set S (JList vs)) = {strip (py_str S v) | v. v \<in> set vs \<and> strip (py_str S v) \<noteq> []}"
  by (auto simp: to_set_def)

text \<open>
  C7. The per-sample F1 of the verbose intersection questions is the same for two samples
  whose ground-truth lists are permutations of each other and whose predicted lists are
  permutations of each other. It is 1 when both normalized sets are empty and 0 when
  exactly one of them is.
\<close>

theorem sample_f1_order_and_empty:
  "(\<forall>gt gt' pv pv'.
      get gt_data ''answer'' = JList gt \<and> get gt_data' ''answer'' = JList gt' \<and>
      intersection_pred_val pred = JList pv \<and> intersection_pred_val pred' = JList pv' \<and>
      mset gt' = mset gt \<and> mset pv' = mset pv \<longrightarrow>
      sample_f1 S gt_data' pred' = sample_f1 S gt_data pred) \<and>
   (set (to_set S (get gt_data ''answer'')) = {} \<and>
    set (to_set S (intersection_pred_val pred)) = {} \<longrightarrow> sample_f1 S gt_data pred = 1) \<and>
   ((set (to_set S (get gt_data ''answer'')) = {}) \<noteq>
    (set (to_set S (intersection_pred_val pred)) = {}) \<longrightarrow> sample_f1 S gt_data pred = 0)"
proof -
  have perm: "sample_f1 S gt_data' pred' = sample_f1 S gt_data pred"
    if "get gt_data ''answer'' = JList gt" "get gt_data' ''answer'' = JList gt'"
      "intersection_pred_val pred = JList pv" "intersection_pred_val pred' = JList pv'"
      "mset gt' = mset gt" "mset pv' = mset pv" for gt gt' pv pv'
  proof -
    from that have "set gt' = set gt" "set pv' = set pv" by (auto dest: mset_eq_setD)
    then have "set (to_set S (JList gt')) = set (to_set S (JList gt))"
      "set (to_set S (JList pv')) = set (to_set S (JList pv))"
      by (simp_all add: set_to_set_JList)
    with that show ?thesis by (simp add: sample_f1_def)
  qed
  have both: "sample_f1 S gt_data pred = 1"
    if "set (to_set S (get gt_data ''answer'')) = {}"
      "set (to_set S (intersection_pred_val pred)) = {}"
    using that by (simp add: sample_f1_def set_f1_def)
  have one: "sample_f1 S gt_data pred = 0"
    if "(set (to_set S (get gt_data ''answer'')) = {}) \<noteq>
        (set (to_set S (intersection_pred_val pred)) = {})"
    using that by (auto simp: sample_f1_def set_f1_def)
  from perm both one show ?thesis by blast
qed

text \<open>The scenario of the specification: ground truth \<open>{A, B}\<close>, prediction \<open>{B, C}\<close>, in
  either order, has F1 = 1/2.\<close>

theorem sample_f1_order_and_empty_witness:
  "sample_f1 (\<lambda>v. []) [''answer'' \<mapsto> JList [JStr ''B'', JStr ''A'']]
      [''pred_answer'' \<mapsto> JList [JStr ''C'', JStr ''B'']] =
   sample_f1 (\<lambda>v. []) [''answer'' \<mapsto> JList [JStr ''A'', JStr ''B'']]
      [''pred_answer'' \<mapsto> JList [JStr ''B'', JStr ''C'']] \<and>
   sample_f1 (\<lambda>v. []) [''answer'' \<mapsto> JList [JStr ''A'', JStr ''B'']]
      [''pred_answer'' \<mapsto> JList [JStr ''B'', JStr ''C'']] = 1 / 2 \<and>
   sample_f1 (\<lambda>v. []) [''answer'' \<mapsto> JList []] [''pred_answer'' \<mapsto> JList []] = 1 \<and>
   sample_f1 (\<lambda>v. []) [''answer'' \<mapsto> JList []] [''pred_answer'' \<mapsto> JList [JStr ''B'']] = 0 \<and>
   sample_f1 (\<lambda>v. []) [''answer'' \<mapsto> JList [JStr ''A'']] [''pred_answer'' \<mapsto> JList []] = 0"
proof -
  let ?S = "\<lambda>v::json. []::string"
  let ?g = "[''answer'' \<mapsto> JList [JStr ''A'', JStr ''B'']]" and ?g' = "[''answer'' \<mapsto> JList [JStr ''B'', JStr ''A'']]"
  let ?p = "[''pred_answer'' \<mapsto> JList [JStr ''B'', JStr ''C'']]" and ?p' = "[''pred_answer'' \<mapsto> JList [JStr ''C'', JStr ''B'']]"
  let ?e = "[''answer'' \<mapsto> JList []]" and ?pe = "[''pred_answer'' \<mapsto> JList []]"
  have vals: "get ?g ''answer'' = JList [JStr ''A'', JStr ''B'']"
    "get ?g' ''answer'' = JList [JStr ''B'', JStr ''A'']"
    "intersection_pred_val ?p = JList [JStr ''B'', JStr ''C'']"
    "intersection_pred_val ?p' = JList [JStr ''C'', JStr ''B'']"
    "get ?e ''answer'' = JList []" "intersection_pred_val ?pe = JList []"
    "intersection_pred_val [''pred_answer'' \<mapsto> JList [JStr ''B'']] = JList [JStr ''B'']"
    "get [''answer'' \<mapsto> JList [JStr ''A'']] ''answer'' = JList [JStr ''A'']"
    by (simp_all add: get_def intersection_pred_val_def)
  have msets: "mset [JStr ''B'', JStr ''A''] = mset [JStr ''A'', JStr ''B'']"
    "mset [JStr ''C'', JStr ''B''] = mset [JStr ''B'', JStr ''C'']"
    by simp_all
  have sets: "set (to_set ?S (JList [])) = {}" "set (to_set ?S (JList [JStr ''B''])) \<noteq> {}"
    "set (to_set ?S (JList [JStr ''A''])) \<noteq> {}"
    by (simp_all add: to_set_def isspace_def code_def str_defs)
  have 1: "sample_f1 ?S ?g' ?p' = sample_f1 ?S ?g ?p"
    using sample_f1_order_and_empty [of ?g ?g' ?p ?p' ?S] vals msets by blast
  have 2: "sample_f1 ?S ?g ?p = 1 / 2"
    by (simp add: sample_f1_def set_f1_def vals to_set_def isspace_def code_def str_defs
        card_insert_if Int_insert_left)
  have 3: "sample_f1 ?S ?e ?pe = 1"
    using sample_f1_order_and_empty [of ?e ?e ?pe ?pe ?S] vals sets by simp
  have 4: "sample_f1 ?S ?e [''pred_answer'' \<mapsto> JList [JStr ''B'']] = 0"
    using sample_f1_order_and_empty [of ?e ?e "[''pred_answer'' \<mapsto> JList [JStr ''B'']]" ?pe ?S]
      vals sets by simp
  have 5: "sample_f1 ?S [''answer'' \<mapsto> JList [JStr ''A'']] ?pe = 0"
    using sample_f1_order_and_empty [of "[''answer'' \<mapsto> JList [JStr ''A'']]" ?e ?pe ?pe ?S]
      vals sets by simp
  from 1 2 3 4 5 show ?thesis by blast
qed

subsection \<open>A response without an answer span, for the intersection list\<close>




end
